theory Spec2Isabelle
  imports Main "HOL-Library.Multiset"
begin

section \<open>Errors\<close>

text \<open>
  Every \<^verbatim>\<open>throw\<close> and every rejected promise of the modelled functions is a value of
  this type. \<open>DbError\<close> stands for a failed store query (connectivity or query error),
  \<open>FetchTimeout\<close> for the rejected timeout promise of \<^verbatim>\<open>getPlaylistVideos\<close>.
\<close>

datatype error =
    ChannelNotFound string
  | NoPlaylistsAvailable string
  | SpecialNotActive
  | NoVideosFound
  | ApiKeyNotSet
  | FetchTimeout
  | DbError
  | TypeError

section \<open>The relational store\<close>

text \<open>
  The tables of the schema that the block assembly and the availability tracker read or
  write. Timestamps are milliseconds since the epoch, as \<^verbatim>\<open>Date.getTime()\<close> gives them;
  a nullable column is an \<open>option\<close>. The bookkeeping columns \<^verbatim>\<open>created_at\<close> and
  \<^verbatim>\<open>updated_at\<close> are left out. \<open>connected\<close> says whether a query reaches the store:
  when it is false every query rejects.
\<close>

record db_video =
  video_pk :: nat
  youtube_video_id :: string
  v_title :: string
  v_artist :: "string option"
  v_song :: "string option"
  duration_seconds :: "nat option"
  v_year :: "nat option"
  is_flagged :: bool
  flag_reason :: "string option"
  unavailable_count :: "int option"
  last_unavailable_at :: "int option"
  is_limited :: bool

record db_playlist =
  playlist_pk :: nat
  p_name :: string
  p_description :: "string option"

record db_bumper =
  bumper_pk :: nat
  b_youtube_video_id :: string
  b_title :: string
  b_duration_seconds :: nat

record database =
  connected :: bool
  videos_table :: "db_video list"
  playlists_table :: "db_playlist list"
  channel_playlists_table :: "(string \<times> nat) list"
  playlist_videos_table :: "(nat \<times> nat) list"
  bumpers_table :: "db_bumper list"

section \<open>Availability tracker\<close>

text \<open>Template literals print a number in decimal.\<close>

fun string_of_nat :: "nat \<Rightarrow> string" where
  "string_of_nat n =
     (if n < 10 then [char_of (48 + n)]
      else string_of_nat (n div 10) @ [char_of (48 + n mod 10)])"

declare string_of_nat.simps [simp del]

definition string_of_int :: "int \<Rightarrow> string" where
  "string_of_int i = (if i < 0 then CHR ''-'' # string_of_nat (nat (- i)) else string_of_nat (nat i))"

text \<open>\<^verbatim>\<open>SELECT * FROM videos WHERE youtube_video_id = $1\<close>, then \<^verbatim>\<open>rows[0] || null\<close>.\<close>

definition getVideoByYoutubeId :: "database \<Rightarrow> string \<Rightarrow> error + db_video option" where
  "getVideoByYoutubeId db youtubeVideoId =
     (if \<not> connected db then Inl DbError
      else Inr (case filter (\<lambda>v. youtube_video_id v = youtubeVideoId) (videos_table db) of
                  [] \<Rightarrow> None
                | row # _ \<Rightarrow> Some row))"

text \<open>
  \<^verbatim>\<open>errorCode ? ... : ...\<close> tests truthiness: a missing code and the code 0 are both
  falsy.
\<close>

definition truthy_code :: "nat option \<Rightarrow> bool" where
  "truthy_code errorCode = (case errorCode of None \<Rightarrow> False | Some c \<Rightarrow> c \<noteq> 0)"

definition thirtyDays :: int where
  "thirtyDays = 30 * 24 * 60 * 60 * 1000"

definition newCount_of :: "int \<Rightarrow> db_video \<Rightarrow> int" where
  "newCount_of now video =
     (let thirtyDaysAgo = now - thirtyDays in
      if (case last_unavailable_at video of None \<Rightarrow> True | Some t \<Rightarrow> t < thirtyDaysAgo)
      then 1
      else (case unavailable_count video of None \<Rightarrow> 0 | Some c \<Rightarrow> c) + 1)"

definition flagReason_of :: "int \<Rightarrow> nat option \<Rightarrow> string" where
  "flagReason_of newCount errorCode =
     (if truthy_code errorCode
      then ''Auto-flagged: '' @ string_of_int newCount @ '' unavailable reports (Error: ''
             @ string_of_nat (the errorCode) @ '')''
      else ''Auto-flagged: '' @ string_of_int newCount @ '' unavailable reports'')"

text \<open>
  \<^verbatim>\<open>markVideoUnavailable\<close>: the \<^verbatim>\<open>SELECT\<close> reads the first row with the id; when there is
  none the function logs and returns. Otherwise one of the two \<^verbatim>\<open>UPDATE\<close> statements
  rewrites every row with that id.
\<close>

definition markVideoUnavailable :: "database \<Rightarrow> int \<Rightarrow> string \<Rightarrow> nat option \<Rightarrow> error + database" where
  "markVideoUnavailable db now youtubeVideoId errorCode =
     (if \<not> connected db then Inl DbError
      else case filter (\<lambda>v. youtube_video_id v = youtubeVideoId) (videos_table db) of
        [] \<Rightarrow> Inr db
      | video # _ \<Rightarrow>
          (let newCount = newCount_of now video;
               shouldFlag = (newCount \<ge> 50);
               flagReason = (if shouldFlag then Some (flagReason_of newCount errorCode) else None)
           in Inr (db\<lparr>videos_table :=
                 map (\<lambda>v. if youtube_video_id v = youtubeVideoId
                           then (if shouldFlag
                                 then v\<lparr>unavailable_count := Some newCount,
                                        last_unavailable_at := Some now,
                                        is_flagged := True,
                                        flag_reason := flagReason\<rparr>
                                 else v\<lparr>unavailable_count := Some newCount,
                                        last_unavailable_at := Some now\<rparr>)
                           else v) (videos_table db)\<rparr>)))"

section \<open>Items, playlists and blocks of the server\<close>

text \<open>
  The objects the server passes around. \<open>vid\<close> is the \<^verbatim>\<open>id\<close> property (the YouTube video
  id). An absent \<^verbatim>\<open>isBumper\<close> or \<^verbatim>\<open>isLimited\<close> property reads as false, an absent
  string property is \<open>None\<close>. An entry of a block is a \<open>video option\<close>: \<open>None\<close> is the
  \<^verbatim>\<open>undefined\<close> that reading an array past its end gives.
\<close>

record video =
  vid :: string
  title :: "string option"
  artist :: "string option"
  song :: "string option"
  year :: "nat option"
  isLimited :: bool
  isBumper :: bool
  videoPlaylistLabel :: "string option"

record playlist =
  pl_id :: string
  pl_label :: "string option"
  isCustom :: bool

record block =
  playlistLabel :: "string option"
  playlistId :: string
  items :: "video option list"

text \<open>The second argument of the interleavers: the string \<^verbatim>\<open>'shows'\<close> or a number.\<close>

datatype interval = IShows | INum nat

definition falsy_interval :: "interval \<Rightarrow> bool" where
  "falsy_interval interval = (case interval of IShows \<Rightarrow> False | INum k \<Rightarrow> k = 0)"

text \<open>\<^verbatim>\<open>videos[i]\<close>: \<^verbatim>\<open>undefined\<close> past the end.\<close>

definition at_index :: "'a list \<Rightarrow> nat \<Rightarrow> 'a option" where
  "at_index xs i = (if i < length xs then Some (xs ! i) else None)"

section \<open>Randomness\<close>

text \<open>
  \<^verbatim>\<open>Math.random\<close> is a source of pre-drawn naturals, threaded through every function
  that draws. \<^verbatim>\<open>Math.floor(Math.random() * n)\<close> takes the next value \<open>r\<close> and yields
  \<open>r mod n\<close>, so every index below \<open>n\<close> can come out. A source that is used up goes on
  with zeros, so the list \<open>rs\<close> stands for the infinite stream \<open>rs\<close> followed by zeros.
\<close>

definition randomIndex :: "nat list \<Rightarrow> nat \<Rightarrow> nat \<times> nat list" where
  "randomIndex rs n =
     (case rs of [] \<Rightarrow> (0, []) | r # rs' \<Rightarrow> ((if n = 0 then 0 else r mod n), rs'))"

text \<open>
  \<^verbatim>\<open>shuffle\<close>: Fisher-Yates, \<^verbatim>\<open>for (i = arr.length - 1; i > 0; i--)\<close>, swapping
  \<^verbatim>\<open>arr[i]\<close> and \<^verbatim>\<open>arr[j]\<close>.
\<close>

fun shuffle_loop :: "nat \<Rightarrow> nat list \<Rightarrow> 'a list \<Rightarrow> 'a list \<times> nat list" where
  "shuffle_loop 0 rs arr = (arr, rs)"
| "shuffle_loop (Suc i) rs arr =
     (let (j, rs') = randomIndex rs (Suc i + 1)
      in shuffle_loop i rs' (arr[Suc i := arr ! j, j := arr ! Suc i]))"

definition shuffle :: "nat list \<Rightarrow> 'a list \<Rightarrow> 'a list \<times> nat list" where
  "shuffle rs arr = shuffle_loop (length arr - 1) rs arr"

text \<open>
  \<^verbatim>\<open>[...xs].sort(() => Math.random() - 0.5)\<close>: with a comparator that is not consistent
  the order the engine produces is implementation-defined, so the engine's sort is a
  parameter \<open>srt\<close> of the functions that call it. It takes and returns the random source.
\<close>

type_synonym 'a random_sort = "nat list \<Rightarrow> 'a list \<Rightarrow> 'a list \<times> nat list"

definition permuting :: "'a random_sort \<Rightarrow> bool" where
  "permuting srt = (\<forall>rs xs. mset (fst (srt rs xs)) = mset xs)"

section \<open>Mixing engine\<close>

fun dedupe_loop :: "string list \<Rightarrow> video list \<Rightarrow> video list" where
  "dedupe_loop seenIds [] = []"
| "dedupe_loop seenIds (v # vs) =
     (if vid v \<in> set seenIds then dedupe_loop seenIds vs
      else v # dedupe_loop (vid v # seenIds) vs)"

definition dedupe :: "video list \<Rightarrow> video list" where
  "dedupe videos = dedupe_loop [] videos"










section \<open>Environment and server state\<close>

text \<open>
  What a request reads but does not change is the environment: the configuration
  constants, the clock (\<^verbatim>\<open>Date.now()\<close>), the bumper pool \<^verbatim>\<open>bumpersCache\<close> (\<open>None\<close> is
  \<^verbatim>\<open>null\<close>), the relational store, and the collaborators that are outside the program:
  the engine's sort, the store's \<^verbatim>\<open>ORDER BY RANDOM()\<close>, the upstream fetch
  \<^verbatim>\<open>fetchPlaylistItems\<close> with its outcome (a list or a thrown error), the playlist
  name lookup, and \<open>timerWins\<close>, which says whether the timeout promise of a fetch
  settles before the fetch does.

  What a request changes is the state: the random source, \<^verbatim>\<open>playlistCache\<close>, the
  \<^verbatim>\<open>'bumpers:all'\<close> entry of the store service's cache with its timestamp, and the
  list of playlists for which \<^verbatim>\<open>fetchPlaylistItems\<close> was called.
\<close>

record cache_entry =
  ce_videos :: "video list"
  ce_timestamp :: int

record env =
  USE_DATABASE :: bool
  clock :: int
  CHANNELS :: "string \<Rightarrow> playlist list option"
  SPECIAL_enabled :: bool
  SPECIAL_playlists :: "playlist list"
  bumpersCache :: "video list option"
  sortVideos :: "video random_sort"
  sortBumperRows :: "db_bumper random_sort"
  orderByRandom :: "(db_video \<times> db_playlist) random_sort"
  fetchPlaylistItems :: "string \<Rightarrow> nat option \<Rightarrow> string option \<Rightarrow> error + video list"
  timerWins :: "string \<Rightarrow> nat \<Rightarrow> bool"
  getPlaylistName :: "string \<Rightarrow> string option"
  store :: database

record state =
  rnd :: "nat list"
  playlistCache :: "string \<rightharpoonup> cache_entry"
  bumpersAll :: "(db_bumper list \<times> int) option"
  upstreamCalls :: "string list"

section \<open>Playlist cache and source fetcher\<close>

definition CACHE_DURATION :: int where
  "CACHE_DURATION = 24 * 60 * 60 * 1000"

definition truthy_num :: "nat option \<Rightarrow> bool" where
  "truthy_num n = (case n of None \<Rightarrow> False | Some k \<Rightarrow> k \<noteq> 0)"

text \<open>
  \<^verbatim>\<open>Promise.race\<close> of the fetch and the timer: the list fetched, or the error with
  which the race rejects, which is the timer's when the timer settles first and otherwise
  the one \<^verbatim>\<open>fetchPlaylistItems\<close> throws. (\<^verbatim>\<open>fetchPlaylistItems\<close> catches the HTTP
  errors of the upstream itself and returns the pages read so far; such a fetch does not
  reject.)
\<close>

definition actualTimeout_of :: "nat option \<Rightarrow> nat option \<Rightarrow> nat" where
  "actualTimeout_of timeout maxVideos =
     (if truthy_num timeout then the timeout
      else if truthy_num maxVideos then 15000 else 60000)"

definition fetchRace ::
  "env \<Rightarrow> string \<Rightarrow> nat option \<Rightarrow> nat option \<Rightarrow> string option \<Rightarrow> error + video list" where
  "fetchRace e pid maxVideos timeout channel =
     (if timerWins e pid (actualTimeout_of timeout maxVideos) then Inl FetchTimeout
      else fetchPlaylistItems e pid maxVideos channel)"

text \<open>
  The part of \<^verbatim>\<open>getPlaylistVideos\<close> after the cache check: the race and the two
  writes to the cache. \<open>upstreamCalls\<close> records that \<^verbatim>\<open>fetchPlaylistItems\<close> was called.
\<close>

definition fetchAndCache ::
  "env \<Rightarrow> state \<Rightarrow> string \<Rightarrow> nat option \<Rightarrow> nat option \<Rightarrow> string option \<Rightarrow> video list \<times> state" where
  "fetchAndCache e s pid maxVideos timeout channel =
     (let s1 = s\<lparr>upstreamCalls := upstreamCalls s @ [pid]\<rparr>
      in case fetchRace e pid maxVideos timeout channel of
           Inr fetched \<Rightarrow>
             (fetched, s1\<lparr>playlistCache := (playlistCache s1)
                 (pid \<mapsto> \<lparr>ce_videos = fetched, ce_timestamp = clock e\<rparr>)\<rparr>)
         | Inl err \<Rightarrow>
             ([], s1\<lparr>playlistCache := (playlistCache s1)
                 (pid \<mapsto> \<lparr>ce_videos = [], ce_timestamp = clock e\<rparr>)\<rparr>))"

definition getPlaylistVideos ::
  "env \<Rightarrow> state \<Rightarrow> string \<Rightarrow> nat option \<Rightarrow> nat option \<Rightarrow> string option \<Rightarrow> video list \<times> state" where
  "getPlaylistVideos e s pid maxVideos timeout channel =
     (case playlistCache s pid of
        Some cached \<Rightarrow>
          if clock e - ce_timestamp cached < CACHE_DURATION then (ce_videos cached, s)
          else fetchAndCache e s pid maxVideos timeout channel
      | None \<Rightarrow> fetchAndCache e s pid maxVideos timeout channel)"

text \<open>
  \<^verbatim>\<open>shuffle\<close> works in place. Where the array shuffled is the one held in the cache,
  the cached order changes with it.
\<close>

definition reorderCached :: "state \<Rightarrow> string \<Rightarrow> video list \<Rightarrow> state" where
  "reorderCached s pid arr =
     (case playlistCache s pid of
        None \<Rightarrow> s
      | Some cached \<Rightarrow> s\<lparr>playlistCache := (playlistCache s)(pid \<mapsto> cached\<lparr>ce_videos := arr\<rparr>)\<rparr>)"

definition idChar :: "char \<Rightarrow> bool" where
  "idChar c = (let n = of_char c :: nat in
     (97 \<le> n \<and> n \<le> 122) \<or> (65 \<le> n \<and> n \<le> 90) \<or> (48 \<le> n \<and> n \<le> 57) \<or> n = 95 \<or> n = 45)"

definition isValidPlaylistId :: "string \<Rightarrow> bool" where
  "isValidPlaylistId pid = (length pid \<ge> 13 \<and> list_all idChar pid)"

section \<open>Bumper interleaver\<close>

text \<open>
  The positional loop of \<^verbatim>\<open>insertBumpersIntoBlock\<close>: \<open>i\<close> is the index of the next
  video, \<open>bumperIndex\<close> the running counter.
\<close>

fun insertLoop :: "video list \<Rightarrow> video list \<Rightarrow> nat \<Rightarrow> nat \<Rightarrow> video option list" where
  "insertLoop shuffledBumpers [] i bumperIndex = []"
| "insertLoop shuffledBumpers (v # vs) i bumperIndex =
     (if i = 1 \<or> i = 5 \<or> i = 9 \<or> i = 11
      then Some v # Some (shuffledBumpers ! (bumperIndex mod length shuffledBumpers))
             # insertLoop shuffledBumpers vs (i + 1) (bumperIndex + 1)
      else Some v # insertLoop shuffledBumpers vs (i + 1) bumperIndex)"

definition insertBumpersIntoBlock ::
  "env \<Rightarrow> nat list \<Rightarrow> video list \<Rightarrow> interval \<Rightarrow> video option list \<times> nat list" where
  "insertBumpersIntoBlock e rs vs interval =
     (case bumpersCache e of
        None \<Rightarrow> (map Some vs, rs)
      | Some pool \<Rightarrow>
          if length pool = 0 \<or> falsy_interval interval then (map Some vs, rs)
          else
            (let (shuffledBumpers, rs') = sortVideos e rs pool
             in if interval = IShows
                then ([at_index vs 0,
                       Some (shuffledBumpers ! (0 mod length shuffledBumpers)),
                       at_index vs 1,
                       at_index vs 2,
                       Some (shuffledBumpers ! (1 mod length shuffledBumpers))], rs')
                else (insertLoop shuffledBumpers vs 0 0, rs')))"

text \<open>
  \<^verbatim>\<open>getRandomBumper\<close> of \<^verbatim>\<open>insertBumpersIntoBlockFromDB\<close>. The \<^verbatim>\<open>do ... while\<close> draws
  until the index differs from \<^verbatim>\<open>lastBumperIndex\<close>. On a used-up source every further
  draw is 0, so the loop leaves at once when the last index is not 0 and never leaves
  when it is: that is \<open>None\<close>.
\<close>

fun drawOtherIndex :: "nat \<Rightarrow> int \<Rightarrow> nat list \<Rightarrow> (nat \<times> nat list) option" where
  "drawOtherIndex n lastBumperIndex [] = (if 0 = lastBumperIndex then None else Some (0, []))"
| "drawOtherIndex n lastBumperIndex (r # rs) =
     (let bumperIndex = (if n = 0 then 0 else r mod n)
      in if int bumperIndex = lastBumperIndex then drawOtherIndex n lastBumperIndex rs
         else Some (bumperIndex, rs))"

definition getRandomBumper ::
  "video list \<Rightarrow> int \<Rightarrow> nat list \<Rightarrow> (video \<times> int \<times> nat list) option" where
  "getRandomBumper pool lastBumperIndex rs =
     (if length pool = 1 then Some (pool ! 0, lastBumperIndex, rs)
      else case drawOtherIndex (length pool) lastBumperIndex rs of
             None \<Rightarrow> None
           | Some (bumperIndex, rs') \<Rightarrow> Some (pool ! bumperIndex, int bumperIndex, rs'))"

fun forEachFromDB ::
  "video list \<Rightarrow> video list \<Rightarrow> nat \<Rightarrow> int \<Rightarrow> nat list \<Rightarrow> (video option list \<times> nat list) option" where
  "forEachFromDB pool [] index lastBumperIndex rs = Some ([], rs)"
| "forEachFromDB pool (v # vs) index lastBumperIndex rs =
     (if index = 1 \<or> index = 5 \<or> index = 9 \<or> index = 11
      then (case getRandomBumper pool lastBumperIndex rs of
              None \<Rightarrow> None
            | Some (b, last', rs') \<Rightarrow>
                (case forEachFromDB pool vs (index + 1) last' rs' of
                   None \<Rightarrow> None
                 | Some (result, rs'') \<Rightarrow> Some (Some v # Some b # result, rs'')))
      else (case forEachFromDB pool vs (index + 1) lastBumperIndex rs of
              None \<Rightarrow> None
            | Some (result, rs'') \<Rightarrow> Some (Some v # result, rs'')))"

definition insertBumpersIntoBlockFromDB ::
  "video list \<Rightarrow> video list \<Rightarrow> interval \<Rightarrow> nat list \<Rightarrow> (video option list \<times> nat list) option" where
  "insertBumpersIntoBlockFromDB vs pool interval rs =
     (if length pool = 0 then Some (map Some vs, rs)
      else if interval = IShows
      then (case getRandomBumper pool (- 1) rs of
              None \<Rightarrow> None
            | Some (b1, last1, rs1) \<Rightarrow>
                (case getRandomBumper pool last1 rs1 of
                   None \<Rightarrow> None
                 | Some (b2, last2, rs2) \<Rightarrow>
                     Some ([at_index vs 0, Some b1, at_index vs 1, at_index vs 2, Some b2], rs2)))
      else forEachFromDB pool vs 0 (- 1) rs)"

section \<open>Single-source block\<close>

text \<open>
  The loop that repeats videos until the block is full,
  \<^verbatim>\<open>while (blockVideos.length < blockSize)\<close>. It need not end, so it is a partial
  function: \<open>None\<close> means that the loop runs forever.
\<close>

partial_function (option) fillBlock :: "'a list \<Rightarrow> nat \<Rightarrow> 'a list \<Rightarrow> 'a list option" where
  "fillBlock availableVideos blockSize blockVideos =
     (if length blockVideos < blockSize
      then fillBlock availableVideos blockSize
             (blockVideos @ take (blockSize - length blockVideos) availableVideos)
      else Some blockVideos)"

text \<open>\<^verbatim>\<open>availableVideos.slice(0, blockSize)\<close>, then the loop, as \<^verbatim>\<open>createProgrammingBlock\<close> has it.\<close>

definition blockVideos_of :: "'a list \<Rightarrow> nat \<Rightarrow> 'a list option" where
  "blockVideos_of availableVideos blockSize =
     fillBlock availableVideos blockSize (take blockSize availableVideos)"

text \<open>
  The same with the guard \<^verbatim>\<open>&& availableVideos.length > 0\<close> that
  \<^verbatim>\<open>getSpecialChannelBlock\<close> and the store-backed path have.
\<close>

definition blockVideos_guarded :: "'a list \<Rightarrow> nat \<Rightarrow> 'a list option" where
  "blockVideos_guarded availableVideos blockSize =
     (if length (take blockSize availableVideos) < blockSize \<and> length availableVideos > 0
      then fillBlock availableVideos blockSize (take blockSize availableVideos)
      else Some (take blockSize availableVideos))"

definition blockShape :: "string \<Rightarrow> nat \<times> interval" where
  "blockShape channel = (if channel = ''shows'' then (3, IShows) else (12, INum 4))"

definition createProgrammingBlock ::
  "env \<Rightarrow> state \<Rightarrow> playlist \<Rightarrow> string \<Rightarrow> string list \<Rightarrow> (block \<times> state) option" where
  "createProgrammingBlock e s playlistObj channel excludeVideoIds =
     (let (allVideos, s1) = getPlaylistVideos e s (pl_id playlistObj) None None (Some channel);
          filtered = filter (\<lambda>v. vid v \<notin> set excludeVideoIds) allVideos;
          (availableVideos, rs1) =
             shuffle (rnd s1) (if length filtered = 0 then allVideos else filtered);
          s2 = (if length filtered = 0 then reorderCached s1 (pl_id playlistObj) availableVideos
                else s1)\<lparr>rnd := rs1\<rparr>;
          (blockSize, bumperInterval) = blockShape channel
      in case blockVideos_of availableVideos blockSize of
           None \<Rightarrow> None
         | Some blockVideos \<Rightarrow>
             (let (its, rs2) = insertBumpersIntoBlock e (rnd s2) blockVideos bumperInterval
              in Some (\<lparr>playlistLabel = pl_label playlistObj,
                         playlistId = pl_id playlistObj,
                         items = its\<rparr>, s2\<lparr>rnd := rs2\<rparr>)))"

section \<open>Store service\<close>

text \<open>
  \<^verbatim>\<open>getAllPlaylistsForChannel\<close>: the join of \<^verbatim>\<open>playlists\<close> with \<^verbatim>\<open>channel_playlists\<close>,
  ordered by the playlist's key.
\<close>

definition getAllPlaylistsForChannel :: "database \<Rightarrow> string \<Rightarrow> error + db_playlist list" where
  "getAllPlaylistsForChannel db channelId =
     (if \<not> connected db then Inl DbError
      else Inr (sort_key playlist_pk
                  [p. p \<leftarrow> playlists_table db, cp \<leftarrow> channel_playlists_table db,
                      playlist_pk p = snd cp, fst cp = channelId]))"

record videos_result =
  vr_videos :: "(db_video \<times> db_playlist) list"
  vr_playlistLabel :: string
  vr_playlistId :: string

text \<open>
  \<^verbatim>\<open>getVideosByPlaylistId\<close>: a row of the result has the columns of the video and of
  the playlist, so it is a pair. The \<^verbatim>\<open>WHERE\<close> clause keeps the rows of the playlist
  whose video is not flagged and not excluded; the store orders them at random; a truthy
  \<^verbatim>\<open>limit\<close> cuts the list.
\<close>

definition getVideosByPlaylistId ::
  "env \<Rightarrow> nat list \<Rightarrow> nat \<Rightarrow> nat option \<Rightarrow> string list \<Rightarrow> (error + videos_result) \<times> nat list" where
  "getVideosByPlaylistId e rs pid limit excludeVideoIds =
     (if \<not> connected (store e) then (Inl DbError, rs)
      else
        (let selected =
               [(v, p). v \<leftarrow> videos_table (store e), pv \<leftarrow> playlist_videos_table (store e),
                        video_pk v = snd pv, p \<leftarrow> playlists_table (store e),
                        fst pv = playlist_pk p, playlist_pk p = pid,
                        is_flagged v = False, youtube_video_id v \<notin> set excludeVideoIds];
             (ordered, rs') = orderByRandom e rs selected;
             limited = (if truthy_num limit then take (the limit) ordered else ordered)
         in (Inr \<lparr>vr_videos = limited,
                  vr_playlistLabel = (case limited of [] \<Rightarrow> [] | (v, p) # _ \<Rightarrow> p_name p),
                  vr_playlistId = string_of_nat pid\<rparr>, rs')))"

definition BUMPERS_TTL :: int where
  "BUMPERS_TTL = 24 * 60 * 60 * 1000"

definition bumperItem :: "db_bumper \<Rightarrow> video" where
  "bumperItem b = \<lparr>vid = b_youtube_video_id b, title = Some (b_title b), artist = None,
     song = None, year = None, isLimited = False, isBumper = True, videoPlaylistLabel = None\<rparr>"

text \<open>
  \<^verbatim>\<open>getRandomBumpers\<close>: \<^verbatim>\<open>getCached\<close> drops an entry older than its time to live; on a
  miss the table is read (ordered by key) and cached; the rows are then sorted at random
  by the engine and the first \<open>cnt\<close> (the argument \<^verbatim>\<open>count\<close>) become bumper items.
\<close>

definition getRandomBumpers :: "env \<Rightarrow> state \<Rightarrow> nat \<Rightarrow> (error + video list) \<times> state" where
  "getRandomBumpers e s cnt =
     (let (cached, s1) =
            (case bumpersAll s of
               None \<Rightarrow> (None, s)
             | Some (rows, timestamp) \<Rightarrow>
                 if clock e - timestamp > BUMPERS_TTL then (None, s\<lparr>bumpersAll := None\<rparr>)
                 else (Some rows, s))
      in case (case cached of
                 Some rows \<Rightarrow> Inr (rows, s1)
               | None \<Rightarrow>
                   if \<not> connected (store e) then Inl DbError
                   else (let rows = sort_key bumper_pk (bumpers_table (store e))
                         in Inr (rows, s1\<lparr>bumpersAll := Some (rows, clock e)\<rparr>))) of
           Inl err \<Rightarrow> (Inl err, s1)
         | Inr (rows, s2) \<Rightarrow>
             (let (shuffled, rs') = sortBumperRows e (rnd s2) rows
              in (Inr (map bumperItem (take cnt shuffled)), s2\<lparr>rnd := rs'\<rparr>)))"

section \<open>Block assembly on the playlist cache\<close>

text \<open>\<^verbatim>\<open>xs[Math.floor(Math.random() * xs.length)]\<close>.\<close>

definition pick :: "nat list \<Rightarrow> 'a list \<Rightarrow> 'a option \<times> nat list" where
  "pick rs xs = (let (i, rs') = randomIndex rs (length xs) in (at_index xs i, rs'))"

definition customLabel :: "string option \<Rightarrow> string \<Rightarrow> string" where
  "customLabel playlistName pid =
     (case playlistName of
        None \<Rightarrow> ''Custom Playlist ('' @ pid @ '')''
      | Some n \<Rightarrow> if n = [] then ''Custom Playlist ('' @ pid @ '')'' else n)"

definition selectRandomPlaylist ::
  "env \<Rightarrow> nat list \<Rightarrow> string \<Rightarrow> string list \<Rightarrow> string list \<Rightarrow> bool
     \<Rightarrow> (error + playlist option) \<times> nat list" where
  "selectRandomPlaylist e rs channel customPlaylistIds excludePlaylistIds preferCustom =
     (let officialPlaylists = (case CHANNELS e channel of None \<Rightarrow> [] | Some ps \<Rightarrow> ps);
          customPlaylists = map (\<lambda>i. \<lparr>pl_id = i, pl_label = None, isCustom = True\<rparr>)
                              (filter isValidPlaylistId customPlaylistIds);
          allPlaylists = officialPlaylists @ customPlaylists
      in if length allPlaylists = 0 then (Inl (NoPlaylistsAvailable channel), rs)
         else
           (let availablePlaylists = filter (\<lambda>p. pl_id p \<notin> set excludePlaylistIds) allPlaylists
            in if length availablePlaylists = 0
               then (let (p, rs') = pick rs allPlaylists in (Inr p, rs'))
               else
                 (let (p, rs') =
                    (if length customPlaylists > 0 \<and> preferCustom
                     then (let availableCustom = filter isCustom availablePlaylists
                           in if length availableCustom > 0 then pick rs availableCustom
                              else pick rs (filter (\<lambda>p. \<not> isCustom p) availablePlaylists))
                     else if length customPlaylists > 0 \<and> \<not> preferCustom
                     then (let availableOfficial = filter (\<lambda>p. \<not> isCustom p) availablePlaylists
                           in if length availableOfficial > 0 then pick rs availableOfficial
                              else pick rs (filter isCustom availablePlaylists))
                     else pick rs availablePlaylists)
                  in (Inr p, rs'))))"

text \<open>
  The items of the store-backed blocks: \<^verbatim>\<open>{id, title, artist, song, isLimited, isBumper}\<close>
  built from a row of the store or from a fetched video.
\<close>

definition rowItem :: "bool \<Rightarrow> db_video \<times> db_playlist \<Rightarrow> video" where
  "rowItem limited row =
     \<lparr>vid = youtube_video_id (fst row), title = Some (v_title (fst row)),
      artist = v_artist (fst row), song = v_song (fst row), year = None,
      isLimited = limited, isBumper = False, videoPlaylistLabel = None\<rparr>"

definition plainItem :: "video \<Rightarrow> video" where
  "plainItem v = \<lparr>vid = vid v, title = title v, artist = artist v, song = song v, year = None,
     isLimited = False, isBumper = False, videoPlaylistLabel = None\<rparr>"

definition specialItem :: "video \<Rightarrow> video" where
  "specialItem v = \<lparr>vid = vid v, title = title v, artist = artist v, song = song v,
     year = year v, isLimited = True, isBumper = False, videoPlaylistLabel = None\<rparr>"

definition getSpecialChannelBlock :: "env \<Rightarrow> state \<Rightarrow> ((error + block) \<times> state) option" where
  "getSpecialChannelBlock e s =
     (if \<not> SPECIAL_enabled e \<or> length (SPECIAL_playlists e) = 0
      then Some (Inl SpecialNotActive, s)
      else
        (let (i, rs0) = randomIndex (rnd s) (length (SPECIAL_playlists e));
             pl = SPECIAL_playlists e ! i;
             (allVideos, s1) =
                getPlaylistVideos e (s\<lparr>rnd := rs0\<rparr>) (pl_id pl) None None (Some ''special'')
         in if length allVideos = 0 then Some (Inl NoVideosFound, s1)
            else
              (let (shuffled, rs1) = shuffle (rnd s1) allVideos;
                   s2 = (reorderCached s1 (pl_id pl) shuffled)\<lparr>rnd := rs1\<rparr>
               in case blockVideos_guarded shuffled 12 of
                    None \<Rightarrow> None
                  | Some blockVideos \<Rightarrow>
                      if USE_DATABASE e
                      then (case getRandomBumpers e s2 4 of
                              (Inl err, s3) \<Rightarrow> Some (Inl err, s3)
                            | (Inr pool, s3) \<Rightarrow>
                                (case insertBumpersIntoBlockFromDB
                                        (map specialItem blockVideos) pool (INum 4) (rnd s3) of
                                   None \<Rightarrow> None
                                 | Some (its, rs4) \<Rightarrow>
                                     Some (Inr \<lparr>playlistLabel = pl_label pl,
                                                playlistId = pl_id pl,
                                                items = its\<rparr>, s3\<lparr>rnd := rs4\<rparr>)))
                      else (let (its, rs4) = insertBumpersIntoBlock e (rnd s2) blockVideos (INum 4)
                            in Some (Inr \<lparr>playlistLabel = pl_label pl,
                                          playlistId = pl_id pl,
                                          items = its\<rparr>, s2\<lparr>rnd := rs4\<rparr>)))))"

text \<open>
  The fetches of \<^verbatim>\<open>getRandomChannelBlock\<close>, in the order in which the promises are
  created: the sampled official playlists, then the valid custom ones, whose videos get
  the playlist's name as label.
\<close>

fun fetchSampled :: "env \<Rightarrow> state \<Rightarrow> playlist list \<Rightarrow> video list list \<times> state" where
  "fetchSampled e s [] = ([], s)"
| "fetchSampled e s (p # ps) =
     (let (fetched, s1) = getPlaylistVideos e s (pl_id p) (Some 15) None (Some ''random'');
          (rest, s2) = fetchSampled e s1 ps
      in (fetched # rest, s2))"

fun fetchCustomLabelled :: "env \<Rightarrow> state \<Rightarrow> string list \<Rightarrow> video list list \<times> state" where
  "fetchCustomLabelled e s [] = ([], s)"
| "fetchCustomLabelled e s (pid # pids) =
     (let (fetched, s1) = getPlaylistVideos e s pid (Some 100) None (Some ''random'');
          labelled = map (\<lambda>v. v\<lparr>videoPlaylistLabel :=
                        Some (customLabel (getPlaylistName e pid) pid)\<rparr>) fetched;
          (rest, s2) = fetchCustomLabelled e s1 pids
      in (labelled # rest, s2))"

definition channelsToInclude :: "string list" where
  "channelsToInclude = [''rock'', ''hiphop'', ''2000s'', ''1990s'', ''1980s'', ''live'', ''shows'']"

definition getRandomChannelBlock ::
  "env \<Rightarrow> state \<Rightarrow> string list \<Rightarrow> string list \<Rightarrow> ((error + block) \<times> state) option" where
  "getRandomChannelBlock e s customPlaylistIds excludeVideoIds =
     (let allPlaylists = concat (map (\<lambda>ch. case CHANNELS e ch of None \<Rightarrow> [] | Some ps \<Rightarrow> ps)
                                    channelsToInclude);
          (shuffledPlaylists, rs0) = shuffle (rnd s) allPlaylists;
          selectedPlaylists = take 8 shuffledPlaylists;
          (official, s1) = fetchSampled e (s\<lparr>rnd := rs0\<rparr>) selectedPlaylists;
          (custom, s2) = (if length customPlaylistIds > 0
                          then fetchCustomLabelled e s1 (filter isValidPlaylistId customPlaylistIds)
                          else ([], s1));
          allVideos = dedupe (concat (official @ custom));
          filtered = filter (\<lambda>v. vid v \<notin> set excludeVideoIds) allVideos;
          (availableVideos, rs1) =
             shuffle (rnd s2) (if length filtered = 0 then allVideos else filtered);
          blockVideos = take 12 availableVideos;
          (its, rs2) = insertBumpersIntoBlock e rs1 blockVideos (INum 4)
      in Some (Inr \<lparr>playlistLabel = Some [], playlistId = ''random-mix'', items = its\<rparr>,
               s2\<lparr>rnd := rs2\<rparr>))"

definition getChannelBlock ::
  "env \<Rightarrow> state \<Rightarrow> string \<Rightarrow> string list \<Rightarrow> string list \<Rightarrow> string list \<Rightarrow> bool
     \<Rightarrow> ((error + block) \<times> state) option" where
  "getChannelBlock e s channel customPlaylistIds excludePlaylistIds excludeVideoIds preferCustom =
     (if channel = ''random'' then getRandomChannelBlock e s customPlaylistIds excludeVideoIds
      else if channel = ''special'' then getSpecialChannelBlock e s
      else
        (case selectRandomPlaylist e (rnd s) channel customPlaylistIds excludePlaylistIds
                preferCustom of
           (Inl err, rs') \<Rightarrow> Some (Inl err, s\<lparr>rnd := rs'\<rparr>)
         | (Inr None, rs') \<Rightarrow> Some (Inl TypeError, s\<lparr>rnd := rs'\<rparr>)
         | (Inr (Some selected), rs') \<Rightarrow>
             (let selectedPlaylist =
                    (if isCustom selected
                     then selected\<lparr>pl_label :=
                            Some (customLabel (getPlaylistName e (pl_id selected)) (pl_id selected))\<rparr>
                     else selected)
              in case createProgrammingBlock e (s\<lparr>rnd := rs'\<rparr>) selectedPlaylist channel
                        excludeVideoIds of
                   None \<Rightarrow> None
                 | Some (blk, s') \<Rightarrow> Some (Inr blk, s'))))"

section \<open>Block assembly on the relational store, with fallback\<close>

text \<open>
  On the store-backed path a playlist is a row of the store (\<^verbatim>\<open>isCustom: false\<close>) or a
  custom playlist id (\<^verbatim>\<open>isCustom: true\<close>).
\<close>

datatype any_playlist = DbPlaylist db_playlist | CustomPlaylist string

fun isCustomP :: "any_playlist \<Rightarrow> bool" where
  "isCustomP (DbPlaylist row) = False"
| "isCustomP (CustomPlaylist pid) = True"

text \<open>\<^verbatim>\<open>p.id.toString()\<close>\<close>

fun idString :: "any_playlist \<Rightarrow> string" where
  "idString (DbPlaylist row) = string_of_nat (playlist_pk row)"
| "idString (CustomPlaylist pid) = pid"

text \<open>\<^verbatim>\<open>Promise.all\<close>: the results in order, or an error when one of the promises rejects.\<close>

fun allSettledOk :: "(error + 'a) list \<Rightarrow> error + 'a list" where
  "allSettledOk [] = Inr []"
| "allSettledOk (Inl err # rest) = Inl err"
| "allSettledOk (Inr x # rest) =
     (case allSettledOk rest of Inl err \<Rightarrow> Inl err | Inr xs \<Rightarrow> Inr (x # xs))"

text \<open>
  The fetches of the random channel on the store-backed path: every promise is started,
  a custom playlist goes to the upstream (without the playlist cache), a store playlist
  to the store.
\<close>

fun fetchEach :: "env \<Rightarrow> state \<Rightarrow> any_playlist list \<Rightarrow> (error + video list) list \<times> state" where
  "fetchEach e s [] = ([], s)"
| "fetchEach e s (CustomPlaylist pid # ps) =
     (let s1 = s\<lparr>upstreamCalls := upstreamCalls s @ [pid]\<rparr>;
          (rest, s2) = fetchEach e s1 ps
      in (fetchPlaylistItems e pid (Some 50) (Some ''random'') # rest, s2))"
| "fetchEach e s (DbPlaylist row # ps) =
     (case getVideosByPlaylistId e (rnd s) (playlist_pk row) (Some 50) [] of
        (Inl err, rs') \<Rightarrow>
          (let (rest, s2) = fetchEach e (s\<lparr>rnd := rs'\<rparr>) ps in (Inl err # rest, s2))
      | (Inr result, rs') \<Rightarrow>
          (let (rest, s2) = fetchEach e (s\<lparr>rnd := rs'\<rparr>) ps
           in (Inr (map (rowItem False) (vr_videos result)) # rest, s2)))"

definition dbRandomBlock ::
  "env \<Rightarrow> state \<Rightarrow> string list \<Rightarrow> string list \<Rightarrow> ((error + block) \<times> state) option" where
  "dbRandomBlock e s customPlaylistIds excludeVideoIds =
     (case allSettledOk (map (getAllPlaylistsForChannel (store e)) channelsToInclude) of
        Inl err \<Rightarrow> Some (Inl err, s)
      | Inr allDbPlaylistsArrays \<Rightarrow>
          (let allPlaylists = map DbPlaylist (concat allDbPlaylistsArrays) @
                              map CustomPlaylist (filter isValidPlaylistId customPlaylistIds)
           in if length allPlaylists = 0 then Some (Inl (NoPlaylistsAvailable ''random''), s)
              else
                (case fetchEach e s allPlaylists of
                   (results, s1) \<Rightarrow>
                     (case allSettledOk results of
                        Inl err \<Rightarrow> Some (Inl err, s1)
                      | Inr allVideosArrays \<Rightarrow>
                          (let allVideos = dedupe (concat allVideosArrays);
                               filtered = filter (\<lambda>v. vid v \<notin> set excludeVideoIds) allVideos;
                               (availableVideos, rs1) =
                                  shuffle (rnd s1)
                                    (if length filtered = 0 then allVideos else filtered);
                               blockVideos = take 12 availableVideos;
                               its = map plainItem blockVideos
                           in case getRandomBumpers e (s1\<lparr>rnd := rs1\<rparr>) 4 of
                                (Inl err, s2) \<Rightarrow> Some (Inl err, s2)
                              | (Inr pool, s2) \<Rightarrow>
                                  (case insertBumpersIntoBlockFromDB its pool (INum 4) (rnd s2) of
                                     None \<Rightarrow> None
                                   | Some (itemsWithBumpers, rs3) \<Rightarrow>
                                       Some (Inr \<lparr>playlistLabel = Some [],
                                                  playlistId = ''random-mix'',
                                                  items = itemsWithBumpers\<rparr>,
                                             s2\<lparr>rnd := rs3\<rparr>)))))))"

text \<open>
  The playlists to choose from on the store-backed path: those not excluded, or all of
  them when the exclusions leave none.
\<close>

definition dbAvailableList :: "any_playlist list \<Rightarrow> string list \<Rightarrow> any_playlist list" where
  "dbAvailableList allPlaylists excludePlaylistIds =
     (let availablePlaylists = filter (\<lambda>p. idString p \<notin> set excludePlaylistIds) allPlaylists
      in if length availablePlaylists > 0 then availablePlaylists else allPlaylists)"

text \<open>The choice of the playlist on the store-backed path.\<close>

definition dbSelect ::
  "nat list \<Rightarrow> any_playlist list \<Rightarrow> bool \<Rightarrow> bool \<Rightarrow> any_playlist option \<times> nat list" where
  "dbSelect rs availableList noCustom preferCustom =
     (if noCustom then pick rs availableList
      else if preferCustom
      then (let availableCustom = filter isCustomP availableList
            in if length availableCustom > 0 then pick rs availableCustom
               else pick rs (filter (\<lambda>p. \<not> isCustomP p) availableList))
      else (let availableDB = filter (\<lambda>p. \<not> isCustomP p) availableList
            in if length availableDB > 0 then pick rs availableDB
               else pick rs (filter isCustomP availableList)))"

text \<open>
  The items of the chosen playlist with the label of the block: a custom playlist is
  fetched from the upstream and cut to the block size as on the cache path (with the
  guard on the repeating loop), a store playlist is read from the store.
\<close>

definition dbPlaylistItems ::
  "env \<Rightarrow> state \<Rightarrow> any_playlist \<Rightarrow> string \<Rightarrow> string list
     \<Rightarrow> ((error + string option \<times> video list) \<times> state) option" where
  "dbPlaylistItems e s selectedPlaylist channel excludeVideoIds =
     (let blockSize = (if channel = ''shows'' then 3 else 12)
      in case selectedPlaylist of
           CustomPlaylist pid \<Rightarrow>
             (let lbl = customLabel (getPlaylistName e pid) pid;
                  s1 = s\<lparr>upstreamCalls := upstreamCalls s @ [pid]\<rparr>
              in case fetchPlaylistItems e pid None (Some channel) of
                   Inl err \<Rightarrow> Some (Inl err, s1)
                 | Inr fetched \<Rightarrow>
                     (let filtered = filter (\<lambda>v. vid v \<notin> set excludeVideoIds) fetched;
                          (availableVideos, rs1) =
                             shuffle (rnd s1) (if length filtered = 0 then fetched else filtered)
                      in case blockVideos_guarded availableVideos blockSize of
                           None \<Rightarrow> None
                         | Some blockVideos \<Rightarrow>
                             Some (Inr (Some lbl, map plainItem blockVideos), s1\<lparr>rnd := rs1\<rparr>)))
         | DbPlaylist row \<Rightarrow>
             (case getVideosByPlaylistId e (rnd s) (playlist_pk row) (Some blockSize)
                     excludeVideoIds of
                (Inl err, rs') \<Rightarrow> Some (Inl err, s\<lparr>rnd := rs'\<rparr>)
              | (Inr result, rs') \<Rightarrow>
                  Some (Inr (Some (p_name row),
                             map (\<lambda>r. rowItem (is_limited (fst r)) r) (vr_videos result)),
                        s\<lparr>rnd := rs'\<rparr>)))"

definition dbRegularBlock ::
  "env \<Rightarrow> state \<Rightarrow> string \<Rightarrow> string list \<Rightarrow> string list \<Rightarrow> string list \<Rightarrow> bool
     \<Rightarrow> ((error + block) \<times> state) option" where
  "dbRegularBlock e s channel customPlaylistIds excludePlaylistIds excludeVideoIds preferCustom =
     (case getAllPlaylistsForChannel (store e) channel of
        Inl err \<Rightarrow> Some (Inl err, s)
      | Inr dbPlaylists \<Rightarrow>
          (let customPlaylists = map CustomPlaylist (filter isValidPlaylistId customPlaylistIds);
               allPlaylists = map DbPlaylist dbPlaylists @ customPlaylists
           in if length allPlaylists = 0 then Some (Inl (NoPlaylistsAvailable channel), s)
              else
                (let availableList = dbAvailableList allPlaylists excludePlaylistIds
                 in case dbSelect (rnd s) availableList (length customPlaylists = 0)
                           preferCustom of
                      (None, rs0) \<Rightarrow> Some (Inl TypeError, s\<lparr>rnd := rs0\<rparr>)
                    | (Some selectedPlaylist, rs0) \<Rightarrow>
                        (case dbPlaylistItems e (s\<lparr>rnd := rs0\<rparr>) selectedPlaylist channel
                                excludeVideoIds of
                           None \<Rightarrow> None
                         | Some (Inl err, s1) \<Rightarrow> Some (Inl err, s1)
                         | Some (Inr (lbl, its), s1) \<Rightarrow>
                             (case getRandomBumpers e s1 10 of
                                (Inl err, s2) \<Rightarrow> Some (Inl err, s2)
                              | (Inr pool, s2) \<Rightarrow>
                                  (case insertBumpersIntoBlockFromDB its pool
                                          (if channel = ''shows'' then IShows else INum 4)
                                          (rnd s2) of
                                     None \<Rightarrow> None
                                   | Some (itemsWithBumpers, rs3) \<Rightarrow>
                                       Some (Inr \<lparr>playlistLabel = lbl,
                                                  playlistId = idString selectedPlaylist,
                                                  items = itemsWithBumpers\<rparr>,
                                             s2\<lparr>rnd := rs3\<rparr>)))))))"

text \<open>The body of the \<^verbatim>\<open>try\<close> of \<^verbatim>\<open>getChannelBlockWithFallback\<close>.\<close>

definition dbChannelBlock ::
  "env \<Rightarrow> state \<Rightarrow> string \<Rightarrow> string list \<Rightarrow> string list \<Rightarrow> string list \<Rightarrow> bool
     \<Rightarrow> ((error + block) \<times> state) option" where
  "dbChannelBlock e s channel customPlaylistIds excludePlaylistIds excludeVideoIds preferCustom =
     (if channel = ''special''
      then getChannelBlock e s channel customPlaylistIds excludePlaylistIds excludeVideoIds
             preferCustom
      else if channel = ''random'' then dbRandomBlock e s customPlaylistIds excludeVideoIds
      else dbRegularBlock e s channel customPlaylistIds excludePlaylistIds excludeVideoIds
             preferCustom)"

text \<open>
  \<^verbatim>\<open>getChannelBlockWithFallback\<close>: an error thrown in the \<^verbatim>\<open>try\<close> is caught and logged,
  and control falls through to the cache-backed implementation, in the state the failed
  attempt left.
\<close>

definition getChannelBlockWithFallback ::
  "env \<Rightarrow> state \<Rightarrow> string \<Rightarrow> string list \<Rightarrow> string list \<Rightarrow> string list \<Rightarrow> bool
     \<Rightarrow> ((error + block) \<times> state) option" where
  "getChannelBlockWithFallback e s channel customPlaylistIds excludePlaylistIds excludeVideoIds
       preferCustom =
     (if USE_DATABASE e
      then (case dbChannelBlock e s channel customPlaylistIds excludePlaylistIds excludeVideoIds
                   preferCustom of
              None \<Rightarrow> None
            | Some (Inr blk, s') \<Rightarrow> Some (Inr blk, s')
            | Some (Inl dbError, s') \<Rightarrow>
                getChannelBlock e s' channel customPlaylistIds excludePlaylistIds excludeVideoIds
                  preferCustom)
      else getChannelBlock e s channel customPlaylistIds excludePlaylistIds excludeVideoIds
             preferCustom)"

section \<open>Reading a block\<close>

text \<open>
  Whether an entry of a block is a bumper, the bumpers of a block in order, and the
  shape that the positional pattern gives to a list of at least twelve videos: one
  bumper of the pool after the videos at source positions 2, 6, 10 and 12.
\<close>

definition entryIsBumper :: "video option \<Rightarrow> bool" where
  "entryIsBumper x = (case x of None \<Rightarrow> False | Some v \<Rightarrow> isBumper v)"

definition opt_list :: "'a option \<Rightarrow> 'a list" where
  "opt_list x = (case x of None \<Rightarrow> [] | Some v \<Rightarrow> [v])"

definition bumperEntries :: "video option list \<Rightarrow> video list" where
  "bumperEntries its = filter isBumper (concat (map opt_list its))"

definition positional_shape :: "video list \<Rightarrow> video list \<Rightarrow> video option list \<Rightarrow> bool" where
  "positional_shape pool vs its =
     (\<exists>b1 b2 b3 b4. b1 \<in> set pool \<and> b2 \<in> set pool \<and> b3 \<in> set pool \<and> b4 \<in> set pool \<and>
        its = map Some (take 2 vs) @ [Some b1] @ map Some (take 4 (drop 2 vs)) @ [Some b2] @
              map Some (take 4 (drop 6 vs)) @ [Some b3] @ map Some (take 2 (drop 10 vs)) @
              [Some b4] @ map Some (drop 12 vs))"

definition positional_flags :: "nat \<Rightarrow> bool list" where
  "positional_flags n =
     [False, False, True, False, False, False, False, True,
      False, False, False, False, True, False, False, True] @ replicate (n - 12) False"

text \<open>
  The ids of the regular (non-bumper) entries of a list of entries, and the ids of all
  entries of the block that a call returned (\<open>None\<close> when it returned an error or did not
  return).
\<close>

definition regularIds :: "video option list \<Rightarrow> string list" where
  "regularIds its = map vid (filter (\<lambda>v. \<not> isBumper v) (concat (map opt_list its)))"



section \<open>Example data\<close>

definition exampleVideo :: db_video where
  "exampleVideo = \<lparr>video_pk = 1, youtube_video_id = ''dQw4w9WgXcQ'', v_title = ''Song'',
     v_artist = None, v_song = None, duration_seconds = None, v_year = None,
     is_flagged = False, flag_reason = None, unavailable_count = Some 49,
     last_unavailable_at = Some 1000, is_limited = False\<rparr>"

definition examplePlaylistRow :: db_playlist where
  "examplePlaylistRow = \<lparr>playlist_pk = 7, p_name = ''Classic Rock'', p_description = None\<rparr>"

definition exampleBumperRow :: "nat \<Rightarrow> string \<Rightarrow> db_bumper" where
  "exampleBumperRow k yid = \<lparr>bumper_pk = k, b_youtube_video_id = yid,
     b_title = ''Ident'', b_duration_seconds = 20\<rparr>"

definition exampleStore :: database where
  "exampleStore = \<lparr>connected = True, videos_table = [exampleVideo],
     playlists_table = [examplePlaylistRow], channel_playlists_table = [(''rock'', 7)],
     playlist_videos_table = [(7, 1)], bumpers_table = [exampleBumperRow 1 ''bumperA'', exampleBumperRow 2 ''bumperB'']\<rparr>"

text \<open>The example store after the fiftieth and after the fifty-first report.\<close>

definition exampleStore50 :: database where
  "exampleStore50 = exampleStore\<lparr>videos_table :=
     [exampleVideo\<lparr>unavailable_count := Some 50, last_unavailable_at := Some 2000,
        is_flagged := True, flag_reason := Some ''Auto-flagged: 50 unavailable reports''\<rparr>]\<rparr>"

definition exampleStore51 :: database where
  "exampleStore51 = exampleStore\<lparr>videos_table :=
     [exampleVideo\<lparr>unavailable_count := Some 51, last_unavailable_at := Some 3000,
        is_flagged := True,
        flag_reason := Some ''Auto-flagged: 51 unavailable reports (Error: 150)''\<rparr>]\<rparr>"

definition exampleItem :: "string \<Rightarrow> video" where
  "exampleItem yid = \<lparr>vid = yid, title = Some ''Title'', artist = None, song = None,
     year = None, isLimited = False, isBumper = False, videoPlaylistLabel = None\<rparr>"

definition exampleItems :: "video list" where
  "exampleItems = map exampleItem [''v01'', ''v02'', ''v03'', ''v04'', ''v05'', ''v06'',
     ''v07'', ''v08'', ''v09'', ''v10'', ''v11'', ''v12'', ''v13'']"

definition examplePool :: "video list" where
  "examplePool = [bumperItem (exampleBumperRow 1 ''bumperA''),
                  bumperItem (exampleBumperRow 2 ''bumperB'')]"

text \<open>An engine sort and a store order that leave the list as it is.\<close>

definition keepOrder :: "'a random_sort" where
  "keepOrder rs xs = (xs, rs)"

definition exampleEnv :: env where
  "exampleEnv = \<lparr>USE_DATABASE = True, clock = 5000,
     CHANNELS = (\<lambda>ch. if ch = ''rock''
                      then Some [\<lparr>pl_id = ''PL300C32DA374417AA'', pl_label = Some ''Classic Rock'',
                                  isCustom = False\<rparr>]
                      else None),
     SPECIAL_enabled = False, SPECIAL_playlists = [],
     bumpersCache = Some examplePool,
     sortVideos = keepOrder, sortBumperRows = keepOrder, orderByRandom = keepOrder,
     fetchPlaylistItems = (\<lambda>pid maxVideos channel. Inl ApiKeyNotSet),
     timerWins = (\<lambda>pid actualTimeout. False),
     getPlaylistName = (\<lambda>pid. None),
     store = exampleStore\<rparr>"

definition exampleBlockItems :: "video option list" where
  "exampleBlockItems =
     [Some (exampleItem ''v01''), Some (exampleItem ''v02''), Some (examplePool ! 0),
      Some (exampleItem ''v03''), Some (exampleItem ''v04''), Some (exampleItem ''v05''),
      Some (exampleItem ''v06''), Some (examplePool ! 1),
      Some (exampleItem ''v07''), Some (exampleItem ''v08''), Some (exampleItem ''v09''),
      Some (exampleItem ''v10''), Some (examplePool ! 0),
      Some (exampleItem ''v11''), Some (exampleItem ''v12''), Some (examplePool ! 1),
      Some (exampleItem ''v13'')]"

text \<open>A server that has just started: nothing cached, nothing fetched.\<close>

definition emptyState :: state where
  "emptyState = \<lparr>rnd = [], playlistCache = Map.empty, bumpersAll = None, upstreamCalls = []\<rparr>"

definition rockPlaylist :: playlist where
  "rockPlaylist = \<lparr>pl_id = ''PL300C32DA374417AA'', pl_label = Some ''Classic Rock'',
     isCustom = False\<rparr>"









section \<open>Availability tracker: properties\<close>

lemma filter_map_same:
  assumes "\<And>x. P (f x) = P x"
  shows "filter P (map f xs) = map f (filter P xs)"
  using assms by (induction xs) auto

lemma markVideoUnavailable_row:
  assumes "getVideoByYoutubeId db yid = Inr (Some video)"
  shows "\<exists>db'. markVideoUnavailable db now yid errorCode = Inr db' \<and>
           getVideoByYoutubeId db' yid =
             Inr (Some (if newCount_of now video \<ge> 50
                        then video\<lparr>unavailable_count := Some (newCount_of now video),
                                   last_unavailable_at := Some now,
                                   is_flagged := True,
                                   flag_reason := Some (flagReason_of (newCount_of now video) errorCode)\<rparr>
                        else video\<lparr>unavailable_count := Some (newCount_of now video),
                                   last_unavailable_at := Some now\<rparr>))"
proof -
  from assms have c: "connected db"
    by (auto simp: getVideoByYoutubeId_def split: if_splits)
  from assms obtain rest
    where f: "filter (\<lambda>v. youtube_video_id v = yid) (videos_table db) = video # rest"
    by (auto simp: getVideoByYoutubeId_def split: if_splits list.splits)
  from f have "video \<in> set (filter (\<lambda>v. youtube_video_id v = yid) (videos_table db))"
    by simp
  then have y: "youtube_video_id video = yid"
    by simp
  show ?thesis
    using c f y
    by (simp add: markVideoUnavailable_def getVideoByYoutubeId_def Let_def filter_map_same)
qed

lemma newCount_of_window:
  "newCount_of now video =
     (case last_unavailable_at video of
        None \<Rightarrow> 1
      | Some t \<Rightarrow> if t < now - 2592000000 then 1
                 else (case unavailable_count video of None \<Rightarrow> 0 | Some c \<Rightarrow> c) + 1)"
  by (simp add: newCount_of_def thirtyDays_def split: option.splits)

text \<open>
  Claim C3. A failure report on a video that the store knows sets the counter to 1 when
  there is no earlier report or the earlier report is more than thirty days
  (2592000000 ms) older than the report, and adds 1 to the counter otherwise (a counter
  that is null counts as 0); in both cases the time of the report becomes the time of the
  last report.
\<close>

theorem tracker_counter:
  assumes "getVideoByYoutubeId db yid = Inr (Some video)"
  shows "\<exists>db' video'. markVideoUnavailable db now yid errorCode = Inr db' \<and>
           getVideoByYoutubeId db' yid = Inr (Some video') \<and>
           unavailable_count video' =
             Some (case last_unavailable_at video of
                     None \<Rightarrow> 1
                   | Some t \<Rightarrow> if t < now - 2592000000 then 1
                              else (case unavailable_count video of None \<Rightarrow> 0 | Some c \<Rightarrow> c) + 1) \<and>
           last_unavailable_at video' = Some now"
proof -
  from markVideoUnavailable_row [OF assms, of now errorCode]
  obtain db' where "markVideoUnavailable db now yid errorCode = Inr db'"
    and "getVideoByYoutubeId db' yid =
             Inr (Some (if newCount_of now video \<ge> 50
                        then video\<lparr>unavailable_count := Some (newCount_of now video),
                                   last_unavailable_at := Some now,
                                   is_flagged := True,
                                   flag_reason := Some (flagReason_of (newCount_of now video) errorCode)\<rparr>
                        else video\<lparr>unavailable_count := Some (newCount_of now video),
                                   last_unavailable_at := Some now\<rparr>))"
    by blast
  then show ?thesis
    unfolding newCount_of_window [symmetric] by (cases "newCount_of now video \<ge> 50") auto
qed

theorem tracker_counter_witness:
  "getVideoByYoutubeId exampleStore ''dQw4w9WgXcQ'' = Inr (Some exampleVideo) \<and>
   (\<exists>db' video'. markVideoUnavailable exampleStore 2000 ''dQw4w9WgXcQ'' None = Inr db' \<and>
      getVideoByYoutubeId db' ''dQw4w9WgXcQ'' = Inr (Some video') \<and>
      unavailable_count video' = Some 50 \<and> last_unavailable_at video' = Some 2000)"
proof -
  have h: "getVideoByYoutubeId exampleStore ''dQw4w9WgXcQ'' = Inr (Some exampleVideo)"
    by (simp add: getVideoByYoutubeId_def exampleStore_def exampleVideo_def)
  have "(case last_unavailable_at exampleVideo of
                     None \<Rightarrow> 1
                   | Some t \<Rightarrow> if t < 2000 - 2592000000 then 1
                              else (case unavailable_count exampleVideo of None \<Rightarrow> 0 | Some c \<Rightarrow> c) + 1) = (50::int)"
    by (simp add: exampleVideo_def)
  with tracker_counter [OF h, of 2000 None] h show ?thesis by simp
qed

text \<open>
  Claim C9, amended. Every failure report whose new counter is 50 or more sets the
  flag and records the reason \<^verbatim>\<open>Auto-flagged: N unavailable reports\<close>, followed by
  \<^verbatim>\<open> (Error: code)\<close> when a truthy error code came with the report, where N is the new
  counter; this also holds when the video is already flagged, so the reason is rewritten
  by each such report. A report whose new counter is below 50 leaves the flag and the
  reason as they were.
\<close>

theorem suppression_reason:
  assumes "getVideoByYoutubeId db yid = Inr (Some video)"
  shows "\<exists>db' video' n. markVideoUnavailable db now yid errorCode = Inr db' \<and>
           getVideoByYoutubeId db' yid = Inr (Some video') \<and>
           unavailable_count video' = Some n \<and>
           (if n \<ge> 50
            then is_flagged video' \<and>
                 flag_reason video' =
                   Some (''Auto-flagged: '' @ string_of_int n @ '' unavailable reports'' @
                         (case errorCode of
                            None \<Rightarrow> []
                          | Some c \<Rightarrow> if c = 0 then []
                                     else '' (Error: '' @ string_of_nat c @ '')''))
            else is_flagged video' = is_flagged video \<and> flag_reason video' = flag_reason video)"
proof -
  have r: "flagReason_of n errorCode =
      ''Auto-flagged: '' @ string_of_int n @ '' unavailable reports'' @
         (case errorCode of None \<Rightarrow> []
          | Some c \<Rightarrow> if c = 0 then [] else '' (Error: '' @ string_of_nat c @ '')'')" for n
    by (simp add: flagReason_of_def truthy_code_def split: option.splits)
  from markVideoUnavailable_row [OF assms, of now errorCode]
  obtain db' where "markVideoUnavailable db now yid errorCode = Inr db'"
    and "getVideoByYoutubeId db' yid =
             Inr (Some (if newCount_of now video \<ge> 50
                        then video\<lparr>unavailable_count := Some (newCount_of now video),
                                   last_unavailable_at := Some now,
                                   is_flagged := True,
                                   flag_reason := Some (flagReason_of (newCount_of now video) errorCode)\<rparr>
                        else video\<lparr>unavailable_count := Some (newCount_of now video),
                                   last_unavailable_at := Some now\<rparr>))"
    by blast
  then show ?thesis
    by (cases "newCount_of now video \<ge> 50") (auto simp: r)
qed

theorem suppression_reason_witness:
  "getVideoByYoutubeId exampleStore50 ''dQw4w9WgXcQ''
     = Inr (Some (hd (videos_table exampleStore50))) \<and>
   (\<exists>db' video' n.
      markVideoUnavailable exampleStore50 3000 ''dQw4w9WgXcQ'' (Some 150) = Inr db' \<and>
      getVideoByYoutubeId db' ''dQw4w9WgXcQ'' = Inr (Some video') \<and>
      unavailable_count video' = Some n \<and>
      (if n \<ge> 50
       then is_flagged video' \<and>
            flag_reason video' =
              Some (''Auto-flagged: '' @ string_of_int n @ '' unavailable reports'' @
                    '' (Error: '' @ string_of_nat 150 @ '')'')
       else is_flagged video' = is_flagged (hd (videos_table exampleStore50)) \<and>
            flag_reason video' = flag_reason (hd (videos_table exampleStore50))))"
proof -
  have h: "getVideoByYoutubeId exampleStore50 ''dQw4w9WgXcQ''
             = Inr (Some (hd (videos_table exampleStore50)))"
    by (simp add: getVideoByYoutubeId_def exampleStore_def exampleStore50_def exampleVideo_def)
  have c: "(case Some (150::nat) of None \<Rightarrow> []
            | Some c \<Rightarrow> if c = 0 then [] else '' (Error: '' @ string_of_nat c @ '')'')
           = '' (Error: '' @ string_of_nat 150 @ '')''"
    by simp
  from suppression_reason [OF h, of 3000 "Some 150"]
  show ?thesis unfolding c using h by blast
qed

text \<open>
  The claim as stated fails: the fiftieth report flags the example video with a reason
  that names 50; the next report, one second later and with error code 150, flags it
  again and overwrites the reason with one that names 51 and the code.
\<close>

theorem resuppress_counterexample:
  "markVideoUnavailable exampleStore 2000 ''dQw4w9WgXcQ'' None = Inr exampleStore50 \<and>
   markVideoUnavailable exampleStore50 3000 ''dQw4w9WgXcQ'' (Some 150) = Inr exampleStore51 \<and>
   map is_flagged (videos_table exampleStore50) = [True] \<and>
   map flag_reason (videos_table exampleStore50) = [Some ''Auto-flagged: 50 unavailable reports''] \<and>
   map flag_reason (videos_table exampleStore51)
     = [Some ''Auto-flagged: 51 unavailable reports (Error: 150)'']"
proof -
  have r50: "flagReason_of 50 None = ''Auto-flagged: 50 unavailable reports''"
    by code_simp
  have r51: "flagReason_of 51 (Some 150) = ''Auto-flagged: 51 unavailable reports (Error: 150)''"
    by code_simp
  show ?thesis
    by (simp add: markVideoUnavailable_def exampleStore_def exampleStore50_def exampleStore51_def
        exampleVideo_def newCount_of_def thirtyDays_def r50 r51)
qed

section \<open>Bumper interleaver: properties\<close>

lemma insertLoop_tail: "12 \<le> i \<Longrightarrow> insertLoop sb vs i bi = map Some vs"
  by (induction vs arbitrary: i) auto

lemma forEachFromDB_tail: "12 \<le> i \<Longrightarrow> forEachFromDB pool vs i lst rs = Some (map Some vs, rs)"
  by (induction vs arbitrary: i) auto

lemma twelve_or_more:
  assumes "12 \<le> length (vs :: 'a list)"
  shows "\<exists>v0 v1 v2 v3 v4 v5 v6 v7 v8 v9 v10 v11 rest.
           vs = v0 # v1 # v2 # v3 # v4 # v5 # v6 # v7 # v8 # v9 # v10 # v11 # rest"
  using assms by (simp add: numeral_eq_Suc Suc_le_length_iff) blast

lemma drawOtherIndex_Some:
  "drawOtherIndex n lst rs = Some (i, rs') \<Longrightarrow> 0 < n \<Longrightarrow> i < n \<and> int i \<noteq> lst"
  by (induction rs) (auto simp: Let_def split: if_splits)

lemma getRandomBumper_Some:
  assumes "getRandomBumper pool lst rs = Some (b, lst', rs')" and "pool \<noteq> []"
  shows "b \<in> set pool"
  using assms
  by (auto simp: getRandomBumper_def split: if_splits option.splits dest!: drawOtherIndex_Some)

lemma nth_mod_mem: "sb \<noteq> [] \<Longrightarrow> sb ! (k mod length sb) \<in> set sb"
  by simp

lemma permuting_set: "permuting srt \<Longrightarrow> set (fst (srt rs xs)) = set xs"
  unfolding permuting_def by (metis mset_eq_setD)

lemma permuting_length: "permuting srt \<Longrightarrow> length (fst (srt rs xs)) = length xs"
  unfolding permuting_def by (metis mset_eq_length)


lemma positional_shape_cache:
  assumes "12 \<le> length vs" and "bumpersCache e = Some pool" and "pool \<noteq> []"
    and "permuting (sortVideos e)"
  shows "positional_shape pool vs (fst (insertBumpersIntoBlock e rs vs (INum 4)))"
proof -
  obtain sb rs' where srt: "sortVideos e rs pool = (sb, rs')"
    by (cases "sortVideos e rs pool")
  from assms(4) srt have sb: "set sb = set pool" "length sb = length pool"
    using permuting_set [of "sortVideos e" rs pool] permuting_length [of "sortVideos e" rs pool]
    by simp_all
  with assms(3) have ne: "sb \<noteq> []" by auto
  from twelve_or_more [OF assms(1)] obtain v0 v1 v2 v3 v4 v5 v6 v7 v8 v9 v10 v11 rest
    where vs: "vs = v0 # v1 # v2 # v3 # v4 # v5 # v6 # v7 # v8 # v9 # v10 # v11 # rest"
    by blast
  have res: "fst (insertBumpersIntoBlock e rs vs (INum 4)) = insertLoop sb vs 0 0"
    using assms(2,3) srt by (simp add: insertBumpersIntoBlock_def falsy_interval_def)
  have "insertLoop sb vs 0 0 =
          map Some (take 2 vs) @ [Some (sb ! (0 mod length sb))] @
          map Some (take 4 (drop 2 vs)) @ [Some (sb ! (1 mod length sb))] @
          map Some (take 4 (drop 6 vs)) @ [Some (sb ! (2 mod length sb))] @
          map Some (take 2 (drop 10 vs)) @ [Some (sb ! (3 mod length sb))] @
          map Some (drop 12 vs)"
    unfolding vs by (simp add: insertLoop_tail numeral_2_eq_2 numeral_3_eq_3)
  moreover have "sb ! (k mod length sb) \<in> set pool" for k
    using nth_mod_mem [OF ne, of k] sb by simp
  ultimately show ?thesis
    unfolding positional_shape_def res by blast
qed

lemma forEachFromDB_plain:
  assumes "forEachFromDB pool (v # vs) i lst rs = Some (res, rs')"
    and "\<not> (i = 1 \<or> i = 5 \<or> i = 9 \<or> i = 11)" and "j = i + 1"
  obtains res0 where "res = Some v # res0"
    and "forEachFromDB pool vs j lst rs = Some (res0, rs')"
  using assms by (auto split: option.splits)

lemma forEachFromDB_bumper:
  assumes "forEachFromDB pool (v # vs) i lst rs = Some (res, rs')"
    and "i = 1 \<or> i = 5 \<or> i = 9 \<or> i = 11" and "j = i + 1"
  obtains b lst' rs1 res0 where "getRandomBumper pool lst rs = Some (b, lst', rs1)"
    and "res = Some v # Some b # res0"
    and "forEachFromDB pool vs j lst' rs1 = Some (res0, rs')"
  using assms by (auto split: option.splits)

lemma positional_shape_store:
  assumes "12 \<le> length vs" and "pool \<noteq> []"
    and "insertBumpersIntoBlockFromDB vs pool (INum 4) rs = Some (res, rs')"
  shows "positional_shape pool vs res"
proof -
  from twelve_or_more [OF assms(1)] obtain v0 v1 v2 v3 v4 v5 v6 v7 v8 v9 v10 v11 rest
    where vs: "vs = v0 # v1 # v2 # v3 # v4 # v5 # v6 # v7 # v8 # v9 # v10 # v11 # rest"
    by blast
  from assms(2,3) have run: "forEachFromDB pool vs 0 (- 1) rs = Some (res, rs')"
    by (simp add: insertBumpersIntoBlockFromDB_def)
  from run obtain r1 where 0: "res = Some v0 # r1"
    and s1: "forEachFromDB pool (v1 # v2 # v3 # v4 # v5 # v6 # v7 # v8 # v9 # v10 # v11 # rest) 1 (- 1) rs = Some (r1, rs')"
    unfolding vs by (rule forEachFromDB_plain [where j = 1]) (simp_all del: forEachFromDB.simps)
  from s1 obtain b1 l1 rs1 r2 where g1: "getRandomBumper pool (- 1) rs = Some (b1, l1, rs1)"
    and 1: "r1 = Some v1 # Some b1 # r2"
    and s2: "forEachFromDB pool (v2 # v3 # v4 # v5 # v6 # v7 # v8 # v9 # v10 # v11 # rest) 2 l1 rs1 = Some (r2, rs')"
    by (rule forEachFromDB_bumper [where j = 2]) (simp_all del: forEachFromDB.simps)
  from s2 obtain r3 where 2: "r2 = Some v2 # r3"
    and s3: "forEachFromDB pool (v3 # v4 # v5 # v6 # v7 # v8 # v9 # v10 # v11 # rest) 3 l1 rs1 = Some (r3, rs')"
    by (rule forEachFromDB_plain [where j = 3]) (simp_all del: forEachFromDB.simps)
  from s3 obtain r4 where 3: "r3 = Some v3 # r4"
    and s4: "forEachFromDB pool (v4 # v5 # v6 # v7 # v8 # v9 # v10 # v11 # rest) 4 l1 rs1 = Some (r4, rs')"
    by (rule forEachFromDB_plain [where j = 4]) (simp_all del: forEachFromDB.simps)
  from s4 obtain r5 where 4: "r4 = Some v4 # r5"
    and s5: "forEachFromDB pool (v5 # v6 # v7 # v8 # v9 # v10 # v11 # rest) 5 l1 rs1 = Some (r5, rs')"
    by (rule forEachFromDB_plain [where j = 5]) (simp_all del: forEachFromDB.simps)
  from s5 obtain b2 l2 rs2 r6 where g2: "getRandomBumper pool l1 rs1 = Some (b2, l2, rs2)"
    and 5: "r5 = Some v5 # Some b2 # r6"
    and s6: "forEachFromDB pool (v6 # v7 # v8 # v9 # v10 # v11 # rest) 6 l2 rs2 = Some (r6, rs')"
    by (rule forEachFromDB_bumper [where j = 6]) (simp_all del: forEachFromDB.simps)
  from s6 obtain r7 where 6: "r6 = Some v6 # r7"
    and s7: "forEachFromDB pool (v7 # v8 # v9 # v10 # v11 # rest) 7 l2 rs2 = Some (r7, rs')"
    by (rule forEachFromDB_plain [where j = 7]) (simp_all del: forEachFromDB.simps)
  from s7 obtain r8 where 7: "r7 = Some v7 # r8"
    and s8: "forEachFromDB pool (v8 # v9 # v10 # v11 # rest) 8 l2 rs2 = Some (r8, rs')"
    by (rule forEachFromDB_plain [where j = 8]) (simp_all del: forEachFromDB.simps)
  from s8 obtain r9 where 8: "r8 = Some v8 # r9"
    and s9: "forEachFromDB pool (v9 # v10 # v11 # rest) 9 l2 rs2 = Some (r9, rs')"
    by (rule forEachFromDB_plain [where j = 9]) (simp_all del: forEachFromDB.simps)
  from s9 obtain b3 l3 rs3 r10 where g3: "getRandomBumper pool l2 rs2 = Some (b3, l3, rs3)"
    and 9: "r9 = Some v9 # Some b3 # r10"
    and s10: "forEachFromDB pool (v10 # v11 # rest) 10 l3 rs3 = Some (r10, rs')"
    by (rule forEachFromDB_bumper [where j = 10]) (simp_all del: forEachFromDB.simps)
  from s10 obtain r11 where 10: "r10 = Some v10 # r11"
    and s11: "forEachFromDB pool (v11 # rest) 11 l3 rs3 = Some (r11, rs')"
    by (rule forEachFromDB_plain [where j = 11]) (simp_all del: forEachFromDB.simps)
  from s11 obtain b4 l4 rs4 r12 where g4: "getRandomBumper pool l3 rs3 = Some (b4, l4, rs4)"
    and 11: "r11 = Some v11 # Some b4 # r12"
    and s12: "forEachFromDB pool rest 12 l4 rs4 = Some (r12, rs')"
    by (rule forEachFromDB_bumper [where j = 12]) (simp_all del: forEachFromDB.simps)
  from s12 have 12: "r12 = map Some rest"
    by (simp add: forEachFromDB_tail)
  have mem: "b1 \<in> set pool" "b2 \<in> set pool" "b3 \<in> set pool" "b4 \<in> set pool"
    using g1 g2 g3 g4 assms(2) by (auto dest: getRandomBumper_Some)
  have "res = map Some (take 2 vs) @ [Some b1] @ map Some (take 4 (drop 2 vs)) @ [Some b2] @
              map Some (take 4 (drop 6 vs)) @ [Some b3] @ map Some (take 2 (drop 10 vs)) @
              [Some b4] @ map Some (drop 12 vs)"
    unfolding vs 0 1 2 3 4 5 6 7 8 9 10 11 12 by simp
  with mem show ?thesis unfolding positional_shape_def by blast
qed

lemma positional_shape_flags:
  assumes "12 \<le> length vs" and "positional_shape pool vs its"
    and "list_all isBumper pool" and "list_all (\<lambda>v. \<not> isBumper v) vs"
  shows "map entryIsBumper its = positional_flags (length vs)"
proof -
  from twelve_or_more [OF assms(1)] obtain v0 v1 v2 v3 v4 v5 v6 v7 v8 v9 v10 v11 rest
    where vs: "vs = v0 # v1 # v2 # v3 # v4 # v5 # v6 # v7 # v8 # v9 # v10 # v11 # rest"
    by blast
  from assms(4) have rest: "map (entryIsBumper \<circ> Some) rest = replicate (length rest) False"
    unfolding vs by (auto simp: list_all_iff entryIsBumper_def map_replicate_const [symmetric])
  from assms(2,3,4) rest show ?thesis
    unfolding positional_shape_def positional_flags_def vs
    by (auto simp: list_all_iff entryIsBumper_def)
qed

lemma store_interleave_returns:
  assumes "12 \<le> length vs" and "pool \<noteq> []"
  shows "\<exists>res rs'. insertBumpersIntoBlockFromDB vs pool (INum 4) (0 # 1 # 0 # 1 # rs) = Some (res, rs')"
proof -
  from twelve_or_more [OF assms(1)] obtain v0 v1 v2 v3 v4 v5 v6 v7 v8 v9 v10 v11 rest
    where vs: "vs = v0 # v1 # v2 # v3 # v4 # v5 # v6 # v7 # v8 # v9 # v10 # v11 # rest"
    by blast
  show ?thesis
  proof (cases "length pool = 1")
    case True
    then show ?thesis
      unfolding vs by (simp add: insertBumpersIntoBlockFromDB_def getRandomBumper_def forEachFromDB_tail)
  next
    case False
    moreover from assms(2) have "0 < length pool" by simp
    ultimately have "2 \<le> length pool" by arith
    then have m: "1 mod length pool = 1" by simp
    from False assms(2) show ?thesis
      unfolding vs by (simp add: insertBumpersIntoBlockFromDB_def getRandomBumper_def forEachFromDB_tail m)
  qed
qed


text \<open>
  Claim C2. For a list of at least twelve regular videos and a non-empty bumper pool,
  the positional pattern puts one bumper of the pool right after the videos at source
  positions 2, 6, 10 and 12 and leaves the videos in their order, so the bumpers of the
  output are exactly the entries at positions 3, 8, 13 and 16. This holds for
  \<^verbatim>\<open>insertBumpersIntoBlock\<close> and for every result of \<^verbatim>\<open>insertBumpersIntoBlockFromDB\<close>,
  which returns a result when its draws are 0, 1, 0, 1.
\<close>

theorem positional_interleaving:
  assumes "12 \<le> length vs" and "list_all (\<lambda>v. \<not> isBumper v) vs"
    and "bumpersCache e = Some pool" and "pool \<noteq> []" and "list_all isBumper pool"
    and "permuting (sortVideos e)"
    and "dbPool \<noteq> []" and "list_all isBumper dbPool"
  shows "positional_shape pool vs (fst (insertBumpersIntoBlock e rs vs (INum 4))) \<and>
         map entryIsBumper (fst (insertBumpersIntoBlock e rs vs (INum 4)))
           = positional_flags (length vs) \<and>
         (\<exists>res rs'. insertBumpersIntoBlockFromDB vs dbPool (INum 4) (0 # 1 # 0 # 1 # rs)
                      = Some (res, rs')) \<and>
         (\<forall>res rs'. insertBumpersIntoBlockFromDB vs dbPool (INum 4) rs = Some (res, rs') \<longrightarrow>
            positional_shape dbPool vs res \<and>
            map entryIsBumper res = positional_flags (length vs))"
proof -
  have a: "positional_shape pool vs (fst (insertBumpersIntoBlock e rs vs (INum 4)))"
    using assms(1,3,4,6) by (rule positional_shape_cache)
  have b: "map entryIsBumper (fst (insertBumpersIntoBlock e rs vs (INum 4)))
             = positional_flags (length vs)"
    using assms(1) a assms(5,2) by (rule positional_shape_flags)
  have c: "\<exists>res rs'. insertBumpersIntoBlockFromDB vs dbPool (INum 4) (0 # 1 # 0 # 1 # rs)
                      = Some (res, rs')"
    using assms(1,7) by (rule store_interleave_returns)
  have d: "positional_shape dbPool vs res \<and> map entryIsBumper res = positional_flags (length vs)"
    if "insertBumpersIntoBlockFromDB vs dbPool (INum 4) rs = Some (res, rs')" for res rs'
  proof -
    have "positional_shape dbPool vs res"
      using assms(1,7) that by (rule positional_shape_store)
    moreover from assms(1) this assms(8,2)
    have "map entryIsBumper res = positional_flags (length vs)"
      by (rule positional_shape_flags)
    ultimately show ?thesis by simp
  qed
  from a b c d show ?thesis by blast
qed

lemma permuting_keepOrder: "permuting keepOrder"
  by (simp add: permuting_def keepOrder_def)

theorem positional_interleaving_witness:
  "12 \<le> length exampleItems \<and> list_all (\<lambda>v. \<not> isBumper v) exampleItems \<and>
   bumpersCache exampleEnv = Some examplePool \<and> examplePool \<noteq> [] \<and>
   list_all isBumper examplePool \<and> permuting (sortVideos exampleEnv) \<and>
   insertBumpersIntoBlockFromDB exampleItems examplePool (INum 4) [0, 1, 0, 1]
     = Some (exampleBlockItems, []) \<and>
   positional_shape examplePool exampleItems exampleBlockItems \<and>
   map entryIsBumper exampleBlockItems = positional_flags 13 \<and>
   positional_shape examplePool exampleItems
     (fst (insertBumpersIntoBlock exampleEnv [0, 1, 0, 1] exampleItems (INum 4))) \<and>
   map entryIsBumper (fst (insertBumpersIntoBlock exampleEnv [0, 1, 0, 1] exampleItems (INum 4)))
     = positional_flags 13"
proof -
  have h1: "12 \<le> length exampleItems" by (simp add: exampleItems_def)
  have h2: "list_all (\<lambda>v. \<not> isBumper v) exampleItems"
    by (simp add: exampleItems_def exampleItem_def)
  have h3: "bumpersCache exampleEnv = Some examplePool" by (simp add: exampleEnv_def)
  have h4: "examplePool \<noteq> []" by (simp add: examplePool_def)
  have h5: "list_all isBumper examplePool" by (simp add: examplePool_def bumperItem_def)
  have h6: "permuting (sortVideos exampleEnv)"
    by (simp add: exampleEnv_def permuting_keepOrder)
  have run: "insertBumpersIntoBlockFromDB exampleItems examplePool (INum 4) [0, 1, 0, 1]
     = Some (exampleBlockItems, [])"
    by (simp add: insertBumpersIntoBlockFromDB_def exampleItems_def examplePool_def
        exampleBlockItems_def getRandomBumper_def)
  have len: "length exampleItems = 13" by (simp add: exampleItems_def)
  from positional_interleaving [OF h1 h2 h3 h4 h5 h6 h4 h5, of "[0, 1, 0, 1]"] run
    h1 h2 h3 h4 h5 h6 len
  show ?thesis by simp
qed


lemma bumperEntries_simps [simp]:
  "bumperEntries [] = []"
  "bumperEntries (None # its) = bumperEntries its"
  "bumperEntries (Some v # its) = (if isBumper v then v # bumperEntries its else bumperEntries its)"
  by (simp_all add: bumperEntries_def opt_list_def)















section \<open>Single-source block: properties\<close>









lemma fillBlock_empty_Some:
  assumes "fillBlock availableVideos blockSize blockVideos = Some res"
  shows "availableVideos = [] \<longrightarrow> blockSize \<le> length blockVideos"
proof (rule fillBlock.raw_induct
    [where P = "\<lambda>av bs blk res. av = [] \<longrightarrow> bs \<le> length blk", OF _ assms])
  fix f :: "'a list \<Rightarrow> nat \<Rightarrow> 'a list \<Rightarrow> 'a list option" and av bs blk y
  assume ih: "\<And>av bs blk y. f av bs blk = Some y \<Longrightarrow> av = [] \<longrightarrow> bs \<le> length blk"
    and eq: "(if length blk < bs then f av bs (blk @ take (bs - length blk) av) else Some blk)
               = Some y"
  show "av = [] \<longrightarrow> bs \<le> length blk"
  proof (cases "length blk < bs")
    case True
    with eq have "f av bs (blk @ take (bs - length blk) av) = Some y" by simp
    from ih [OF this] True show ?thesis by simp
  next
    case False
    then show ?thesis by simp
  qed
qed

lemma fillBlock_never_returns:
  "length blockVideos < blockSize \<Longrightarrow> fillBlock [] blockSize blockVideos = None"
  using fillBlock_empty_Some [of "[]" blockSize blockVideos]
  by (cases "fillBlock [] blockSize blockVideos") auto




lemma createProgrammingBlock_hangs:
  assumes "getPlaylistVideos e s (pl_id playlistObj) None None (Some channel) = ([], s1)"
  shows "createProgrammingBlock e s playlistObj channel excludeVideoIds = None"
proof -
  obtain blockSize bumperInterval where shape: "blockShape channel = (blockSize, bumperInterval)"
    by (cases "blockShape channel")
  then have "0 < blockSize" by (auto simp: blockShape_def split: if_splits)
  then have "blockVideos_of ([] :: video list) blockSize = None"
    by (simp add: blockVideos_of_def fillBlock_never_returns)
  with assms shape show ?thesis
    by (simp add: createProgrammingBlock_def Let_def shuffle_def)
qed




text \<open>
  Claim C10. The claim says that the construction of a single-source block returns for
  every fetched list, the empty one too. On a server that has just started and whose
  upstream fetch fails, \<^verbatim>\<open>getPlaylistVideos\<close> caches and returns the empty list, and the
  repeating loop of \<^verbatim>\<open>createProgrammingBlock\<close> then never ends, so neither
  \<^verbatim>\<open>getChannelBlock\<close> nor \<^verbatim>\<open>getChannelBlockWithFallback\<close> returns. The sibling
  \<^verbatim>\<open>getSpecialChannelBlock\<close> throws \<^verbatim>\<open>No videos found\<close> on the same list.
\<close>

theorem empty_playlist_hangs:
  "fst (getPlaylistVideos exampleEnv emptyState ''PL300C32DA374417AA'' None None (Some ''rock'')) = [] \<and>
   createProgrammingBlock exampleEnv emptyState rockPlaylist ''rock'' [] = None \<and>
   getChannelBlock exampleEnv emptyState ''rock'' [] [] [] False = None \<and>
   getChannelBlockWithFallback (exampleEnv\<lparr>USE_DATABASE := False\<rparr>) emptyState ''rock'' [] [] []
     False = None"
proof -
  have g: "getPlaylistVideos e emptyState ''PL300C32DA374417AA'' None None (Some ch)
     = ([], emptyState\<lparr>upstreamCalls := [''PL300C32DA374417AA''],
            playlistCache := [''PL300C32DA374417AA'' \<mapsto> \<lparr>ce_videos = [], ce_timestamp = 5000\<rparr>]\<rparr>)"
    if "fetchPlaylistItems e = fetchPlaylistItems exampleEnv" "timerWins e = timerWins exampleEnv"
       "clock e = clock exampleEnv" for e ch
    using that
    by (simp add: getPlaylistVideos_def fetchAndCache_def fetchRace_def emptyState_def exampleEnv_def)
  have c: "createProgrammingBlock e emptyState rockPlaylist ''rock'' [] = None"
    if "fetchPlaylistItems e = fetchPlaylistItems exampleEnv" "timerWins e = timerWins exampleEnv"
       "clock e = clock exampleEnv" for e
    by (rule createProgrammingBlock_hangs) (simp add: rockPlaylist_def g [OF that])
  have sel: "selectRandomPlaylist e [] ''rock'' [] [] False = (Inr (Some rockPlaylist), [])"
    if "CHANNELS e = CHANNELS exampleEnv" for e
    using that
    by (simp add: selectRandomPlaylist_def exampleEnv_def rockPlaylist_def pick_def
        randomIndex_def at_index_def Let_def)
  have s0: "emptyState\<lparr>rnd := []\<rparr> = emptyState" by (simp add: emptyState_def)
  have r: "rnd emptyState = []" by (simp add: emptyState_def)
  have gc: "getChannelBlock e emptyState ''rock'' [] [] [] False = None"
    if "fetchPlaylistItems e = fetchPlaylistItems exampleEnv" "timerWins e = timerWins exampleEnv"
       "clock e = clock exampleEnv" "CHANNELS e = CHANNELS exampleEnv" for e
    using that
    by (simp add: getChannelBlock_def sel r s0 c rockPlaylist_def [symmetric])
       (simp add: rockPlaylist_def c [unfolded rockPlaylist_def])
  from g [of exampleEnv "''rock''"] c [of exampleEnv] gc [of exampleEnv]
    gc [of "exampleEnv\<lparr>USE_DATABASE := False\<rparr>"]
  show ?thesis by (simp add: getChannelBlockWithFallback_def)
qed

text \<open>
  The sibling: on the same server, with the special channel switched on,
  \<^verbatim>\<open>getSpecialChannelBlock\<close> returns the error \<^verbatim>\<open>No videos found\<close>.
\<close>

lemma special_channel_throws_on_empty:
  "map_option fst (getSpecialChannelBlock
       (exampleEnv\<lparr>SPECIAL_enabled := True, SPECIAL_playlists := [rockPlaylist]\<rparr>) emptyState)
     = Some (Inl NoVideosFound)"
  by (simp add: getSpecialChannelBlock_def randomIndex_def rockPlaylist_def
      getPlaylistVideos_def fetchAndCache_def fetchRace_def emptyState_def exampleEnv_def)

section \<open>Mixing engine: properties\<close>












section \<open>Playlist cache: properties\<close>





section \<open>Block assembly: properties\<close>

lemma allSettledOk_first_error: "allSettledOk (Inl err # rest) = Inl err"
  by simp








lemma regularIds_simps [simp]:
  "regularIds [] = []"
  "regularIds (None # its) = regularIds its"
  "regularIds (Some v # its) = (if isBumper v then regularIds its else vid v # regularIds its)"
  by (simp_all add: regularIds_def opt_list_def)


lemma regularIds_at_index:
  "set (regularIds (at_index vs k # its)) \<subseteq> vid ` set vs \<union> set (regularIds its)"
  by (auto simp: at_index_def)









lemma rowItem_vid [simp]: "vid (rowItem limited r) = youtube_video_id (fst r)"
  by (simp add: rowItem_def)

lemma plainItem_vid [simp]: "vid (plainItem v) = vid v"
  by (simp add: plainItem_def)










end
